theory Spec2Isabelle
  imports Complex_Main
begin

section \<open>Values, errors and Python helpers\<close>

text \<open>
  JSON-compatible values, as produced by \<open>jsonable_encoder\<close> and \<open>model_dump\<close> and as
  found in filter payloads.  A Python \<open>dict\<close> is an association list in insertion order.
\<close>

datatype json =
    JNull
  | JBool bool
  | JInt int
  | JNum real
  | JStr string
  | JArr "json list"
  | JObj "(string \<times> json) list"

text \<open>Exceptions that the modelled code raises or lets through, each with its message.\<close>

datatype exn =
    CustomError string
  | StoreError string
  | IntegrityError string
  | MongoException string
  | IndexError string
  | KeyError string
  | TypeError string
  | AttributeError string
  | ValidationError string
  | ArgumentError string
  | CompileError string

text \<open>\<open>str(e)\<close>, as the HTTP layer puts it in the failure envelope.\<close>

fun exn_str :: "exn \<Rightarrow> string" where
  "exn_str (CustomError m) = m"
| "exn_str (StoreError m) = m"
| "exn_str (IntegrityError m) = m"
| "exn_str (MongoException m) = m"
| "exn_str (IndexError m) = m"
| "exn_str (KeyError m) = m"
| "exn_str (TypeError m) = m"
| "exn_str (AttributeError m) = m"
| "exn_str (ValidationError m) = m"
| "exn_str (ArgumentError m) = m"
| "exn_str (CompileError m) = m"

text \<open>Python truthiness (\<open>if x:\<close>) of a JSON-compatible value.\<close>

fun truthy :: "json \<Rightarrow> bool" where
  "truthy JNull = False"
| "truthy (JBool b) = b"
| "truthy (JInt i) = (i \<noteq> 0)"
| "truthy (JNum r) = (r \<noteq> 0)"
| "truthy (JStr s) = (s \<noteq> [])"
| "truthy (JArr xs) = (xs \<noteq> [])"
| "truthy (JObj kvs) = (kvs \<noteq> [])"

text \<open>
  \<open>str.lower\<close> on the ASCII range.  A direction string is only ever compared with
  \<open>"desc"\<close> and \<open>"asc"\<close>, and no character outside ASCII lower-cases to one of their
  letters, so the comparison is decided as in Python.
\<close>

definition lower_chr :: "char \<Rightarrow> char" where
  "lower_chr c =
     (case map_of (zip ''ABCDEFGHIJKLMNOPQRSTUVWXYZ'' ''abcdefghijklmnopqrstuvwxyz'') c of
        Some l \<Rightarrow> l
      | None \<Rightarrow> c)"

definition lower :: "string \<Rightarrow> string" where
  "lower s = map lower_chr s"

text \<open>\<open>s.startswith(p)\<close>.\<close>

fun startswith :: "string \<Rightarrow> string \<Rightarrow> bool" where
  "startswith s [] = True"
| "startswith [] (p # ps) = False"
| "startswith (c # cs) (p # ps) = (c = p \<and> startswith cs ps)"

text \<open>\<open>s.split(sep)\<close> for a one-character separator: never an empty list.\<close>

fun split_on :: "char \<Rightarrow> string \<Rightarrow> string list" where
  "split_on sep [] = [[]]"
| "split_on sep (c # cs) =
     (if c = sep then [] # split_on sep cs
      else (case split_on sep cs of
              [] \<Rightarrow> [[c]]
            | p # ps \<Rightarrow> (c # p) # ps))"

section \<open>Tables and select statements\<close>

text \<open>
  The value of an attribute of a mapped class that is not a column: a Python string, \<open>None\<close>,
  or some other object (a dict, a method, the \<open>MetaData\<close>, the registry, ...).
\<close>

datatype pyval = PyStr string | PyNone | PyObj

text \<open>
  A mapped table (\<open>db_models\<close>): its name, its primary-key column, its other columns, and
  the attributes of the mapped class that are not columns, each with its value.
\<close>

record table =
  tablename :: string
  pkey :: string
  other_columns :: "string list"
  class_attrs :: "(string \<times> pyval) list"

definition columns :: "table \<Rightarrow> string list" where
  "columns t = pkey t # other_columns t"

text \<open>
  \<open>getattr(table, name)\<close>: the column of that name, else the class attribute of that name,
  else nothing (Python raises \<open>AttributeError\<close>).  \<open>hasattr(table, name)\<close> says whether
  \<open>getattr\<close> finds something, so it holds for a class attribute such as \<open>__tablename__\<close>
  as well as for a column.
\<close>

datatype pyattr = ColumnAttr string | ValueAttr pyval

definition getattr :: "table \<Rightarrow> string \<Rightarrow> pyattr option" where
  "getattr t name =
     (if name \<in> set (columns t) then Some (ColumnAttr name)
      else (case map_of (class_attrs t) name of
              Some v \<Rightarrow> Some (ValueAttr v)
            | None \<Rightarrow> None))"

definition hasattr :: "table \<Rightarrow> string \<Rightarrow> bool" where
  "hasattr t name = (getattr t name \<noteq> None)"

text \<open>
  The class attributes of a declarative model besides its columns: \<open>__tablename__\<close> from
  the model, \<open>type_annotation_map\<close> from \<open>Base\<close>, and attributes that the declarative
  base and Python give every mapped class.  A model without a docstring has
  \<open>__doc__ = None\<close>.  Python adds further double-underscore attributes to every class;
  the properties of dropped entries below are stated for an arbitrary table, whatever its
  list of class attributes.
\<close>

definition declarative_attrs :: "string \<Rightarrow> (string \<times> pyval) list" where
  "declarative_attrs name =
     [(''__tablename__'', PyStr name), (''__doc__'', PyNone),
      (''__module__'', PyStr ''scripts.core.db.psql.db_models''),
      (''type_annotation_map'', PyObj), (''metadata'', PyObj), (''registry'', PyObj),
      (''__table__'', PyObj), (''__mapper__'', PyObj), (''__init__'', PyObj),
      (''__annotations__'', PyObj), (''__dict__'', PyObj), (''__class__'', PyObj),
      (''_sa_class_manager'', PyObj), (''_sa_registry'', PyObj)]"

definition Categories :: table where
  "Categories = \<lparr>tablename = ''categories'', pkey = ''category_id'',
                 other_columns = [''category_name'', ''description'', ''meta''],
                 class_attrs = declarative_attrs ''categories''\<rparr>"

definition Transactions :: table where
  "Transactions = \<lparr>tablename = ''transaction'', pkey = ''t_id'',
                   other_columns = [''category_id'', ''amount'', ''description'', ''meta''],
                   class_attrs = declarative_attrs ''transaction''\<rparr>"

text \<open>
  What a statement orders by: a mapped column, a textual SQL fragment
  (\<open>text("meta->>'field'")\<close>), a label given as a plain string, or the constant \<open>NULL\<close>.
\<close>

datatype colexpr = Column string | TextClause string | LabelRef string | NullConst

datatype order_clause = Asc colexpr | Desc colexpr

text \<open>
  Predicates: \<open>column == value\<close>, \<open>column.like(pattern)\<close>, and a Python boolean passed
  to \<open>filter\<close>, which becomes the constant \<open>true\<close> or \<open>false\<close>.
\<close>

datatype cond = Eq string json | Like string string | Const bool

record query =
  q_table :: table
  q_where :: "cond list"
  q_order_by :: "order_clause list"
  q_offset :: "nat option"
  q_limit :: "nat option"

text \<open>\<open>select(table)\<close>: all columns, no predicate, no ordering.\<close>

definition select_all :: "table \<Rightarrow> query" where
  "select_all t = \<lparr>q_table = t, q_where = [], q_order_by = [], q_offset = None, q_limit = None\<rparr>"

text \<open>\<open>query.order_by(c)\<close> and \<open>query.filter(p)\<close> append a clause.\<close>

definition order_by :: "query \<Rightarrow> order_clause \<Rightarrow> query" where
  "order_by q c = q\<lparr>q_order_by := q_order_by q @ [c]\<rparr>"

definition filter_q :: "query \<Rightarrow> cond \<Rightarrow> query" where
  "filter_q q p = q\<lparr>q_where := q_where q @ [p]\<rparr>"

section \<open>Filter/sort compiler (\<open>SQLQueryBuilder\<close>)\<close>

text \<open>\<open>QueryConstants.key_column_map\<close> and \<open>key_column_map.get(k, k)\<close>.\<close>

definition key_column_map :: "(string \<times> string) list" where
  "key_column_map = [(''created_at'', ''meta.created_at'')]"

definition resolve_colId :: "string \<Rightarrow> string" where
  "resolve_colId k = (case map_of key_column_map k of Some v \<Rightarrow> v | None \<Rightarrow> k)"

text \<open>A \<open>sortModel\<close> entry \<open>{"colId": ..., "sort": ...}\<close> with string values.\<close>

record sort_entry =
  colId :: string
  sort_dir :: string

text \<open>
  \<open>FilterModel\<close>: \<open>filterModel\<close> is a dict, \<open>sortModel\<close> a list; \<open>None\<close> and the empty
  container are both falsy and are both the empty list here.
\<close>

record filter_model =
  filterModel :: "(string \<times> json) list"
  sortModel :: "sort_entry list"

text \<open>\<open>FetchCategories\<close> and \<open>FetchTransactionModel\<close> (the same fields).\<close>

record fetch_model =
  fetch_user_id :: string
  filters :: "filter_model option"

text \<open>The SQL text \<open>meta->>'field'\<close>.\<close>

definition meta_text :: "string \<Rightarrow> string" where
  "meta_text json_field = ''meta->>'' @ [CHR 0x27] @ json_field @ [CHR 0x27]"

text \<open>
  What \<open>desc(x)\<close> and \<open>asc(x)\<close> make of their argument: a column stays a column, a string
  becomes a label reference, \<open>None\<close> the constant \<open>NULL\<close>, and any other object is refused
  with an \<open>ArgumentError\<close>.
\<close>

fun order_expr :: "pyattr \<Rightarrow> exn + colexpr" where
  "order_expr (ColumnAttr c) = Inr (Column c)"
| "order_expr (ValueAttr (PyStr v)) = Inr (LabelRef v)"
| "order_expr (ValueAttr PyNone) = Inr NullConst"
| "order_expr (ValueAttr PyObj) =
     Inl (ArgumentError ''SQL expression element or literal value expected'')"

text \<open>
  The body of the loop over \<open>sortModel\<close> in \<open>add_filters\<close>.  The loop also stores the
  resolved id back into the entry; nothing reads the entry afterwards.
\<close>

definition add_sort :: "table \<Rightarrow> query \<Rightarrow> sort_entry \<Rightarrow> exn + query" where
  "add_sort t q each_sort =
     (let cid = resolve_colId (colId each_sort) in
      if hasattr t cid then
        (case getattr t cid of
           None \<Rightarrow> Inl (AttributeError cid)
         | Some column \<Rightarrow>
             (if lower (sort_dir each_sort) = ''desc'' then
                (case order_expr column of
                   Inl err \<Rightarrow> Inl err
                 | Inr x \<Rightarrow> Inr (order_by q (Desc x)))
              else if lower (sort_dir each_sort) = ''asc'' then
                (case order_expr column of
                   Inl err \<Rightarrow> Inl err
                 | Inr x \<Rightarrow> Inr (order_by q (Asc x)))
              else Inr q))
      else if startswith cid ''meta'' then
        (case split_on CHR ''.'' cid of
           _ # json_field # _ \<Rightarrow>
             (if lower (sort_dir each_sort) = ''desc''
              then Inr (order_by q (Desc (TextClause (meta_text json_field))))
              else Inr (order_by q (Asc (TextClause (meta_text json_field)))))
         | _ \<Rightarrow> Inl (IndexError ''list index out of range''))
      else Inr q)"

fun add_sorts :: "table \<Rightarrow> query \<Rightarrow> sort_entry list \<Rightarrow> exn + query" where
  "add_sorts t q [] = Inr q"
| "add_sorts t q (e # es) =
     (case add_sort t q e of Inl err \<Rightarrow> Inl err | Inr q' \<Rightarrow> add_sorts t q' es)"

text \<open>
  Python \<open>==\<close> between a class attribute that is not a column and a filter value: a plain
  boolean.
\<close>

fun py_eq :: "pyval \<Rightarrow> json \<Rightarrow> bool" where
  "py_eq (PyStr a) (JStr b) = (a = b)"
| "py_eq PyNone JNull = True"
| "py_eq _ _ = False"

text \<open>
  \<open>column.like(value)\<close> and \<open>column == value\<close> for what \<open>getattr\<close> returned: a predicate on
  a column; on any other attribute \<open>like\<close> does not exist and \<open>==\<close> is a boolean.
\<close>

fun like_cond :: "pyattr \<Rightarrow> string \<Rightarrow> exn + cond" where
  "like_cond (ColumnAttr c) pat = Inr (Like c pat)"
| "like_cond (ValueAttr v) pat = Inl (AttributeError ''like'')"

fun eq_cond :: "pyattr \<Rightarrow> json \<Rightarrow> cond" where
  "eq_cond (ColumnAttr c) v = Eq c v"
| "eq_cond (ValueAttr a) v = Const (py_eq a v)"

text \<open>\<open>query_builder\<close>: one predicate per filter key that names an attribute of the table.\<close>

definition add_filter :: "table \<Rightarrow> query \<Rightarrow> string \<times> json \<Rightarrow> exn + query" where
  "add_filter t q kv =
     (if hasattr t (fst kv) then
        (case getattr t (fst kv) of
           None \<Rightarrow> Inl (AttributeError (fst kv))
         | Some column \<Rightarrow>
             (case snd kv of
                JStr v \<Rightarrow>
                  (if CHR ''%'' \<in> set v then
                     (case like_cond column v of
                        Inl err \<Rightarrow> Inl err
                      | Inr p \<Rightarrow> Inr (filter_q q p))
                   else Inr (filter_q q (eq_cond column (JStr v))))
              | v \<Rightarrow> Inr (filter_q q (eq_cond column v))))
      else Inr q)"

fun query_builder :: "table \<Rightarrow> query \<Rightarrow> (string \<times> json) list \<Rightarrow> exn + query" where
  "query_builder t q [] = Inr q"
| "query_builder t q (kv # kvs) =
     (case add_filter t q kv of Inl err \<Rightarrow> Inl err | Inr q' \<Rightarrow> query_builder t q' kvs)"

definition add_filters :: "table \<Rightarrow> query \<Rightarrow> fetch_model \<Rightarrow> exn + query" where
  "add_filters t q input_data =
     (case filters input_data of
        None \<Rightarrow> Inl (AttributeError ''NoneType object has no attribute sortModel'')
      | Some f \<Rightarrow>
          (case (if sortModel f \<noteq> [] then add_sorts t q (sortModel f) else Inr q) of
             Inl err \<Rightarrow> Inl err
           | Inr q' \<Rightarrow>
               (if filterModel f \<noteq> [] then query_builder t q' (filterModel f) else Inr q')))"

section \<open>Relational session\<close>

text \<open>
  A stored row maps column names to values; a column without a value is \<open>NULL\<close>.
  The session holds the rows of every table by table name.  Whether the database raises on
  a statement is outside the program: \<open>fault\<close> gives, per kind of statement, the
  exception that \<open>session.execute\<close>/\<open>commit\<close> raises, if any.  The engine's
  \<open>LIKE\<close> matching and \<open>ORDER BY\<close> are parameters of the session as well.  A statement
  that orders by a label which is none of its columns does not compile.
\<close>

type_synonym row = "(string \<times> json) list"

datatype stmt_kind = Select | Insert | Update | Upsert | Delete

record session =
  tables :: "string \<Rightarrow> row list"
  fault :: "stmt_kind \<Rightarrow> exn option"
  engine_like :: "string \<Rightarrow> json \<Rightarrow> bool"
  engine_order :: "order_clause list \<Rightarrow> row list \<Rightarrow> row list"

definition col :: "row \<Rightarrow> string \<Rightarrow> json" where
  "col r c = (case map_of r c of Some v \<Rightarrow> v | None \<Rightarrow> JNull)"

text \<open>\<open>column == None\<close> is rendered \<open>IS NULL\<close>, so equality with \<open>JNull\<close> holds on a NULL column.\<close>

fun cond_holds :: "session \<Rightarrow> row \<Rightarrow> cond \<Rightarrow> bool" where
  "cond_holds s r (Eq c v) = (col r c = v)"
| "cond_holds s r (Like c p) = engine_like s p (col r c)"
| "cond_holds s r (Const b) = b"

definition matches :: "session \<Rightarrow> cond list \<Rightarrow> row \<Rightarrow> bool" where
  "matches s conds r = list_all (cond_holds s r) conds"

text \<open>A result row carries every column of the selected table.\<close>

definition project :: "table \<Rightarrow> row \<Rightarrow> row" where
  "project t r = map (\<lambda>c. (c, col r c)) (columns t)"

definition select_rows :: "session \<Rightarrow> query \<Rightarrow> row list" where
  "select_rows s q =
     (let matched = filter (matches s (q_where q)) (tables s (tablename (q_table q)));
          ordered = (if q_order_by q = [] then matched else engine_order s (q_order_by q) matched);
          skipped = (case q_offset q of None \<Rightarrow> ordered | Some n \<Rightarrow> drop n ordered);
          limited = (case q_limit q of None \<Rightarrow> skipped | Some n \<Rightarrow> take n skipped)
      in map (project (q_table q)) limited)"

text \<open>
  Compiling a statement (\<open>query.compile\<close>, and the first step of every execution): a label
  reference in \<open>ORDER BY\<close> must name a column of the statement.
\<close>

fun label_resolves :: "table \<Rightarrow> order_clause \<Rightarrow> bool" where
  "label_resolves t (Asc (LabelRef v)) = (v \<in> set (columns t))"
| "label_resolves t (Desc (LabelRef v)) = (v \<in> set (columns t))"
| "label_resolves t _ = True"

definition compile_stmt :: "query \<Rightarrow> exn option" where
  "compile_stmt q =
     (if list_all (label_resolves (q_table q)) (q_order_by q) then None
      else Some (CompileError ''Cannot resolve label reference for ORDER BY''))"

text \<open>\<open>session.execute(query).mappings().all()\<close>.\<close>

definition session_execute :: "session \<Rightarrow> query \<Rightarrow> exn + row list" where
  "session_execute s q =
     (case fault s Select of
        Some e \<Rightarrow> Inl e
      | None \<Rightarrow>
          (case compile_stmt q of
             Some e \<Rightarrow> Inl e
           | None \<Rightarrow> Inr (select_rows s q)))"

section \<open>Generic table accessor (\<open>SqlAlchemyUtil\<close>)\<close>

text \<open>Setting one column of a row, and a dict of columns (\<open>values(data)\<close>).\<close>

fun set_col :: "string \<Rightarrow> json \<Rightarrow> row \<Rightarrow> row" where
  "set_col k v [] = [(k, v)]"
| "set_col k v (kv # r) = (if fst kv = k then (k, v) # r else kv # set_col k v r)"

fun set_cols :: "row \<Rightarrow> row \<Rightarrow> row" where
  "set_cols [] r = r"
| "set_cols (kv # data) r = set_cols data (set_col (fst kv) (snd kv) r)"

definition put_rows :: "session \<Rightarrow> table \<Rightarrow> row list \<Rightarrow> session" where
  "put_rows s t rs = s\<lparr>tables := (tables s)(tablename t := rs)\<rparr>"

text \<open>
  \<open>insert\<close> with the default empty \<open>return_keys\<close>: one row is written, unless the database
  refuses it (a fault, or a row with the same primary key); the exception is re-raised.
\<close>

definition insert_row :: "session \<Rightarrow> table \<Rightarrow> row \<Rightarrow> (exn + unit) \<times> session" where
  "insert_row s t data =
     (case fault s Insert of
        Some e \<Rightarrow> (Inl e, s)
      | None \<Rightarrow>
          if list_ex (\<lambda>r. col r (pkey t) = col data (pkey t)) (tables s (tablename t))
          then (Inl (IntegrityError ''duplicate key value violates unique constraint''), s)
          else (Inr (), put_rows s t (tables s (tablename t) @ [data])))"

definition update_with_where ::
    "session \<Rightarrow> table \<Rightarrow> row \<Rightarrow> cond list \<Rightarrow> (exn + unit) \<times> session" where
  "update_with_where s t data where_conditions =
     (case fault s Update of
        Some e \<Rightarrow> (Inl e, s)
      | None \<Rightarrow>
          (Inr (), put_rows s t
             (map (\<lambda>r. if matches s where_conditions r then set_cols data r else r)
                (tables s (tablename t)))))"

definition same_keys :: "string list \<Rightarrow> row \<Rightarrow> row \<Rightarrow> bool" where
  "same_keys ks a b = list_all (\<lambda>k. col a k = col b k) ks"

definition upsert ::
    "session \<Rightarrow> table \<Rightarrow> row \<Rightarrow> string list \<Rightarrow> (exn + unit) \<times> session" where
  "upsert s t insert_json primary_keys =
     (case fault s Upsert of
        Some e \<Rightarrow> (Inl e, s)
      | None \<Rightarrow>
          if list_ex (same_keys primary_keys insert_json) (tables s (tablename t))
          then (Inr (), put_rows s t
                  (map (\<lambda>r. if same_keys primary_keys insert_json r
                             then set_cols insert_json r else r)
                     (tables s (tablename t))))
          else (Inr (), put_rows s t (tables s (tablename t) @ [insert_json])))"

definition delete_rows :: "session \<Rightarrow> table \<Rightarrow> cond list \<Rightarrow> (exn + unit) \<times> session" where
  "delete_rows s t where_conditions =
     (case fault s Delete of
        Some e \<Rightarrow> (Inl e, s)
      | None \<Rightarrow>
          (Inr (), put_rows s t
             (filter (\<lambda>r. \<not> matches s where_conditions r) (tables s (tablename t)))))"

text \<open>\<open>_build_select_query\<close> with the default \<open>columns\<close> and \<open>group_by\<close>.\<close>

definition build_select_query ::
    "table \<Rightarrow> cond list \<Rightarrow> nat option \<Rightarrow> order_clause list \<Rightarrow> query" where
  "build_select_query t where_conditions offset order_by_clauses =
     \<lparr>q_table = t, q_where = where_conditions, q_order_by = order_by_clauses,
      q_offset = offset, q_limit = None\<rparr>"

text \<open>\<open>_get_count\<close>: the count query keeps the predicates only.\<close>

definition get_count :: "session \<Rightarrow> table \<Rightarrow> cond list \<Rightarrow> exn + nat" where
  "get_count s t where_conditions =
     (case fault s Select of
        Some e \<Rightarrow> Inl e
      | None \<Rightarrow> Inr (length (filter (matches s where_conditions) (tables s (tablename t)))))"

text \<open>
  \<open>fetch_as_json\<close>: the statement is compiled, then executed; the exception handler logs
  and falls off the end of the function, which returns \<open>None\<close>.
\<close>

definition fetch_as_json :: "session \<Rightarrow> query \<Rightarrow> json" where
  "fetch_as_json s q =
     (case compile_stmt q of
        Some e \<Rightarrow> JNull
      | None \<Rightarrow>
          (case session_execute s q of
             Inl e \<Rightarrow> JNull
           | Inr rows \<Rightarrow>
               (let data = map JObj rows in if length data = 1 then data ! 0 else JArr data)))"

text \<open>\<open>fetch_by_query\<close> with \<open>QueryType.JSON\<close>.\<close>

definition fetch_by_query :: "session \<Rightarrow> query \<Rightarrow> json" where
  "fetch_by_query s q = fetch_as_json s q"

text \<open>
  \<open>select_from_table\<close> with the JSON return type.  With \<open>return_count\<close> the Python result
  is the pair \<open>(count, results)\<close>, here the two-element sequence \<open>JArr [JInt count, results]\<close>.
\<close>

definition select_from_table ::
    "session \<Rightarrow> table \<Rightarrow> cond list \<Rightarrow> bool \<Rightarrow> nat option \<Rightarrow> nat option \<Rightarrow> bool \<Rightarrow>
     order_clause list \<Rightarrow> exn + json" where
  "select_from_table s t where_conditions select_one offset limit return_count order_by_clauses =
     (let select_stmt = build_select_query t where_conditions offset order_by_clauses in
      if select_one then
        (case session_execute s select_stmt of
           Inl e \<Rightarrow> Inl e
         | Inr rows \<Rightarrow> Inr (case rows of [] \<Rightarrow> JNull | r # _ \<Rightarrow> JObj r))
      else
        (let results = fetch_by_query s (select_stmt\<lparr>q_limit := limit\<rparr>) in
         if return_count then
           (case get_count s t where_conditions of
              Inl e \<Rightarrow> Inl e
            | Inr n \<Rightarrow> Inr (JArr [JInt (int n), results]))
         else Inr results))"

section \<open>Request models (\<open>schemas\<close>)\<close>

text \<open>
  The pydantic models, an \<open>Optional\<close> field as an option.  Validation accepts \<open>None\<close> and
  a value of the declared type, which is what the handlers themselves store; any other
  shape is rejected with a \<open>ValidationError\<close>.
\<close>

record MetaData =
  created_by :: "string option"
  created_at :: "int option"
  updated_at :: "int option"
  updated_by :: "string option"

record CreateCategoriesModel =
  category_id :: "string option"
  category_name :: string
  description :: "string option"
  meta :: "MetaData option"

record CreateTransactionModel =
  t_id :: "string option"
  t_category_id :: string
  amount :: real
  t_description :: "string option"
  t_meta :: "MetaData option"

definition opt_str :: "string option \<Rightarrow> json" where
  "opt_str x = (case x of None \<Rightarrow> JNull | Some v \<Rightarrow> JStr v)"

definition opt_int :: "int option \<Rightarrow> json" where
  "opt_int x = (case x of None \<Rightarrow> JNull | Some v \<Rightarrow> JInt v)"

fun validate_opt_str :: "json \<Rightarrow> exn + string option" where
  "validate_opt_str JNull = Inr None"
| "validate_opt_str (JStr v) = Inr (Some v)"
| "validate_opt_str _ = Inl (ValidationError ''Input should be a valid string'')"

fun validate_opt_int :: "json \<Rightarrow> exn + int option" where
  "validate_opt_int JNull = Inr None"
| "validate_opt_int (JInt v) = Inr (Some v)"
| "validate_opt_int _ = Inl (ValidationError ''Input should be a valid integer'')"

text \<open>A field with a default: the default when the key is absent, the validated value otherwise.\<close>

definition field_or ::
    "(string \<times> json) list \<Rightarrow> string \<Rightarrow> 'a \<Rightarrow> (json \<Rightarrow> exn + 'a) \<Rightarrow> exn + 'a" where
  "field_or payload k dflt validate =
     (case map_of payload k of None \<Rightarrow> Inr dflt | Some v \<Rightarrow> validate v)"

text \<open>\<open>MetaData(created_by=..., created_at=..., updated_at=..., updated_by=...)\<close> from raw values.\<close>

definition MetaData_validate :: "(string \<times> json) list \<Rightarrow> exn + MetaData" where
  "MetaData_validate payload =
     (case field_or payload ''created_by'' (Some []) validate_opt_str of
        Inl e \<Rightarrow> Inl e
      | Inr cb \<Rightarrow>
     (case field_or payload ''created_at'' (Some 0) validate_opt_int of
        Inl e \<Rightarrow> Inl e
      | Inr ca \<Rightarrow>
     (case field_or payload ''updated_at'' (Some 0) validate_opt_int of
        Inl e \<Rightarrow> Inl e
      | Inr ua \<Rightarrow>
     (case field_or payload ''updated_by'' (Some []) validate_opt_str of
        Inl e \<Rightarrow> Inl e
      | Inr ub \<Rightarrow>
          Inr \<lparr>created_by = cb, created_at = ca, updated_at = ua, updated_by = ub\<rparr>))))"

fun validate_opt_meta :: "json \<Rightarrow> exn + MetaData option" where
  "validate_opt_meta JNull = Inr None"
| "validate_opt_meta (JObj kvs) =
     (case MetaData_validate kvs of Inl e \<Rightarrow> Inl e | Inr m \<Rightarrow> Inr (Some m))"
| "validate_opt_meta _ = Inl (ValidationError ''Input should be a valid dictionary'')"

text \<open>
  Parsing a request body into \<open>CreateCategoriesModel\<close>: \<open>category_name\<close> is required,
  \<open>category_id\<close> and \<open>description\<close> default to the empty string, \<open>meta\<close> to \<open>None\<close>.
\<close>

definition CreateCategoriesModel_validate ::
    "(string \<times> json) list \<Rightarrow> exn + CreateCategoriesModel" where
  "CreateCategoriesModel_validate payload =
     (case field_or payload ''category_id'' (Some []) validate_opt_str of
        Inl e \<Rightarrow> Inl e
      | Inr cid \<Rightarrow>
     (case map_of payload ''category_name'' of
        Some (JStr name) \<Rightarrow>
          (case field_or payload ''description'' (Some []) validate_opt_str of
             Inl e \<Rightarrow> Inl e
           | Inr d \<Rightarrow>
          (case field_or payload ''meta'' None validate_opt_meta of
             Inl e \<Rightarrow> Inl e
           | Inr m \<Rightarrow>
               Inr \<lparr>category_id = cid, category_name = name, description = d, meta = m\<rparr>))
      | Some _ \<Rightarrow> Inl (ValidationError ''Input should be a valid string'')
      | None \<Rightarrow> Inl (ValidationError ''Field required'')))"

text \<open>\<open>model_dump()\<close>.\<close>

definition MetaData_dump :: "MetaData \<Rightarrow> json" where
  "MetaData_dump m =
     JObj [(''created_by'', opt_str (created_by m)), (''created_at'', opt_int (created_at m)),
           (''updated_at'', opt_int (updated_at m)), (''updated_by'', opt_str (updated_by m))]"

definition opt_meta :: "MetaData option \<Rightarrow> json" where
  "opt_meta x = (case x of None \<Rightarrow> JNull | Some m \<Rightarrow> MetaData_dump m)"

definition CreateCategoriesModel_dump :: "CreateCategoriesModel \<Rightarrow> row" where
  "CreateCategoriesModel_dump r =
     [(''category_id'', opt_str (category_id r)), (''category_name'', JStr (category_name r)),
      (''description'', opt_str (description r)), (''meta'', opt_meta (meta r))]"

definition CreateTransactionModel_dump :: "CreateTransactionModel \<Rightarrow> row" where
  "CreateTransactionModel_dump r =
     [(''t_id'', opt_str (t_id r)), (''category_id'', JStr (t_category_id r)),
      (''amount'', JNum (amount r)), (''description'', opt_str (t_description r)),
      (''meta'', opt_meta (t_meta r))]"

text \<open>Python subscription \<open>x[key]\<close> with a string key.\<close>

fun subscript :: "json \<Rightarrow> string \<Rightarrow> exn + json" where
  "subscript (JObj kvs) k = (case map_of kvs k of Some v \<Rightarrow> Inr v | None \<Rightarrow> Inl (KeyError k))"
| "subscript (JArr xs) k = Inl (TypeError ''list indices must be integers or slices, not str'')"
| "subscript (JStr x) k = Inl (TypeError ''string indices must be integers, not str'')"
| "subscript _ k = Inl (TypeError ''object is not subscriptable'')"

section \<open>Category handler\<close>

text \<open>
  The generated id (\<open>shortuuid.uuid()\<close>) and the current time are inputs.  Each handler
  returns its result, or the exception it raises, with the session after the call.
\<close>

text \<open>\<open>self.table.name\<close>: the attribute, or an \<open>AttributeError\<close> if the class has none.\<close>

definition table_attr :: "table \<Rightarrow> string \<Rightarrow> exn + pyattr" where
  "table_attr t name =
     (case getattr t name of Some a \<Rightarrow> Inr a | None \<Rightarrow> Inl (AttributeError name))"

definition create_categories ::
    "session \<Rightarrow> table \<Rightarrow> CreateCategoriesModel \<Rightarrow> string \<Rightarrow> string \<Rightarrow> int \<Rightarrow>
     (exn + string) \<times> session" where
  "create_categories s t request_data user_id new_id now =
     (let r1 = request_data\<lparr>category_id := Some new_id\<rparr> in
      case table_attr t ''category_name'' of
        Inl e \<Rightarrow> (Inl e, s)
      | Inr c \<Rightarrow>
     (case select_from_table s t [eq_cond c (JStr (category_name r1))]
             False None None False [] of
        Inl e \<Rightarrow> (Inl e, s)
      | Inr found \<Rightarrow>
          if truthy found then (Inl (CustomError ''Category already exists!!''), s)
          else
            (let r2 = r1\<lparr>meta := Some \<lparr>created_by = Some user_id, created_at = Some now,
                                         updated_at = Some 0, updated_by = Some []\<rparr>\<rparr> in
             case insert_row s t (CreateCategoriesModel_dump r2) of
               (Inl e, s') \<Rightarrow> (Inl e, s')
             | (Inr u, s') \<Rightarrow> (Inr new_id, s'))))"

definition update_categories ::
    "session \<Rightarrow> table \<Rightarrow> CreateCategoriesModel \<Rightarrow> string \<Rightarrow> int \<Rightarrow> (exn + unit) \<times> session" where
  "update_categories s t request_data user_id now =
     (case table_attr t ''category_id'' of
        Inl e \<Rightarrow> (Inl e, s)
      | Inr c \<Rightarrow>
     (case select_from_table s t [eq_cond c (opt_str (category_id request_data))]
             False None None False [] of
        Inl e \<Rightarrow> (Inl e, s)
      | Inr category_data \<Rightarrow>
          if truthy category_data then
            (case subscript category_data ''meta'' of
               Inl e \<Rightarrow> (Inl e, s)
             | Inr m \<Rightarrow>
            (case subscript m ''created_at'' of
               Inl e \<Rightarrow> (Inl e, s)
             | Inr ca \<Rightarrow>
            (case subscript m ''created_by'' of
               Inl e \<Rightarrow> (Inl e, s)
             | Inr cb \<Rightarrow>
            (case MetaData_validate
                    [(''created_at'', ca), (''created_by'', cb),
                     (''updated_by'', JStr user_id), (''updated_at'', JInt now)] of
               Inl e \<Rightarrow> (Inl e, s)
             | Inr md \<Rightarrow>
                 update_with_where s t
                   (CreateCategoriesModel_dump (request_data\<lparr>meta := Some md\<rparr>))
                   [eq_cond c (opt_str (category_id request_data))]))))
          else (Inl (CustomError ''Invalid category_id !!''), s)))"

text \<open>\<open>fetch_categories\<close>: a falsy result of \<open>fetch_as_json\<close> becomes the empty list.\<close>

definition fetch_categories :: "session \<Rightarrow> table \<Rightarrow> fetch_model \<Rightarrow> exn + json" where
  "fetch_categories s t request_data =
     (case add_filters t (select_all t) request_data of
        Inl e \<Rightarrow> Inl e
      | Inr q \<Rightarrow>
          (let task_data = fetch_as_json s q in
           if truthy task_data then Inr task_data else Inr (JArr [])))"

section \<open>Transaction handler\<close>

definition create_transaction ::
    "session \<Rightarrow> CreateTransactionModel \<Rightarrow> string \<Rightarrow> string \<Rightarrow> int \<Rightarrow>
     (exn + string) \<times> session" where
  "create_transaction s request_data user_id new_id now =
     (let r1 = request_data\<lparr>t_id := Some new_id\<rparr>;
          r2 = r1\<lparr>t_meta := Some \<lparr>created_by = Some user_id, created_at = Some now,
                                     updated_at = Some 0, updated_by = Some []\<rparr>\<rparr> in
      case insert_row s Transactions (CreateTransactionModel_dump r2) of
        (Inl e, s') \<Rightarrow> (Inl e, s')
      | (Inr u, s') \<Rightarrow> (Inr (t_category_id r2), s'))"

definition fetch_transaction :: "session \<Rightarrow> table \<Rightarrow> fetch_model \<Rightarrow> exn + json" where
  "fetch_transaction s t request_data =
     (case add_filters t (select_all t) request_data of
        Inl e \<Rightarrow> Inl e
      | Inr q \<Rightarrow>
          (let task_data = fetch_as_json s q in
           if truthy task_data then Inr task_data else Inr (JArr [])))"

section \<open>HTTP services\<close>

text \<open>\<open>DefaultResponseSchema\<close> and \<open>DefaultFailureSchema\<close>.\<close>

record envelope =
  status :: string
  message :: string
  data :: json
  error :: "string option"

definition DefaultResponseSchema :: "json \<Rightarrow> envelope" where
  "DefaultResponseSchema d =
     \<lparr>status = ''success'', message = ''success'', data = d, error = None\<rparr>"

definition DefaultFailureSchema :: "string \<Rightarrow> string \<Rightarrow> envelope" where
  "DefaultFailureSchema msg err =
     \<lparr>status = ''failure'', message = msg, data = JNull, error = Some err\<rparr>"

definition create_categories_service ::
    "session \<Rightarrow> CreateCategoriesModel \<Rightarrow> string \<Rightarrow> string \<Rightarrow> int \<Rightarrow> envelope \<times> session" where
  "create_categories_service s request_data meta_user_id new_id now =
     (case create_categories s Categories request_data meta_user_id new_id now of
        (Inr cid, s') \<Rightarrow> (DefaultResponseSchema (JStr cid), s')
      | (Inl e, s') \<Rightarrow> (DefaultFailureSchema ''Failed to create categories'' (exn_str e), s'))"

definition update_categories_service ::
    "session \<Rightarrow> CreateCategoriesModel \<Rightarrow> string \<Rightarrow> int \<Rightarrow> envelope \<times> session" where
  "update_categories_service s request_data meta_user_id now =
     (case update_categories s Categories request_data meta_user_id now of
        (Inr u, s') \<Rightarrow> (DefaultResponseSchema JNull, s')
      | (Inl e, s') \<Rightarrow> (DefaultFailureSchema ''Failed to update categories'' (exn_str e), s'))"

definition fetch_categories_service :: "session \<Rightarrow> fetch_model \<Rightarrow> envelope" where
  "fetch_categories_service s request_data =
     (case fetch_categories s Categories request_data of
        Inr d \<Rightarrow> DefaultResponseSchema d
      | Inl e \<Rightarrow> DefaultFailureSchema ''Failed to fetch categories'' (exn_str e))"

definition create_transactions_service ::
    "session \<Rightarrow> CreateTransactionModel \<Rightarrow> string \<Rightarrow> string \<Rightarrow> int \<Rightarrow> envelope \<times> session" where
  "create_transactions_service s request_data meta_user_id new_id now =
     (case create_transaction s request_data meta_user_id new_id now of
        (Inr cid, s') \<Rightarrow> (DefaultResponseSchema (JStr cid), s')
      | (Inl e, s') \<Rightarrow> (DefaultFailureSchema ''Failed to create transactions'' (exn_str e), s'))"

definition fetch_transactions_service :: "session \<Rightarrow> fetch_model \<Rightarrow> envelope" where
  "fetch_transactions_service s request_data =
     (case fetch_transaction s Transactions request_data of
        Inr d \<Rightarrow> DefaultResponseSchema d
      | Inl e \<Rightarrow> DefaultFailureSchema ''Failed to fetch transactions'' (exn_str e))"

section \<open>Document store accessor and user handler\<close>

text \<open>
  A user profile document: the three profile attributes and whatever other string fields
  the document holds.  As for the session, \<open>mongo_fault\<close> says which driver calls raise.
\<close>

record user_doc =
  doc_user_id :: string
  doc_username :: string
  doc_user_role :: string
  doc_more :: "(string \<times> string) list"

datatype mongo_op = FindOne | UpdateOne

record mongo =
  docs :: "user_doc list"
  mongo_fault :: "mongo_op \<Rightarrow> string option"

record UserUpdateModel =
  username :: string
  user_role :: string
  user_id :: string

definition UserUpdateModel_dump :: "UserUpdateModel \<Rightarrow> (string \<times> string) list" where
  "UserUpdateModel_dump r =
     [(''username'', username r), (''user_role'', user_role r), (''user_id'', user_id r)]"

definition doc_field :: "user_doc \<Rightarrow> string \<Rightarrow> string option" where
  "doc_field d f =
     (if f = ''user_id'' then Some (doc_user_id d)
      else if f = ''username'' then Some (doc_username d)
      else if f = ''user_role'' then Some (doc_user_role d)
      else map_of (doc_more d) f)"

text \<open>Query conditions \<open>{field: value}\<close> and \<open>{field: {"$ne": value}}\<close>.\<close>

datatype mcond = FieldEq string string | FieldNe string string

fun mcond_holds :: "user_doc \<Rightarrow> mcond \<Rightarrow> bool" where
  "mcond_holds d (FieldEq f v) = (doc_field d f = Some v)"
| "mcond_holds d (FieldNe f v) = (doc_field d f \<noteq> Some v)"

definition doc_matches :: "mcond list \<Rightarrow> user_doc \<Rightarrow> bool" where
  "doc_matches query d = list_all (mcond_holds d) query"

text \<open>The projection \<open>{"_id": 0, f: 1, ...}\<close>: the listed fields that the document has.\<close>

definition project_doc :: "string list \<Rightarrow> user_doc \<Rightarrow> (string \<times> string) list" where
  "project_doc wanted d =
     concat (map (\<lambda>f. case doc_field d f of None \<Rightarrow> [] | Some v \<Rightarrow> [(f, v)]) wanted)"

text \<open>\<open>find_one\<close>: the projected first match, or the empty dict (\<open>response or {}\<close>).\<close>

definition find_one ::
    "mongo \<Rightarrow> mcond list \<Rightarrow> string list \<Rightarrow> exn + (string \<times> string) list" where
  "find_one m query filter_dict =
     (case mongo_fault m FindOne of
        Some msg \<Rightarrow> Inl (MongoException (''exception  in find function as '' @ msg))
      | None \<Rightarrow>
          (case filter (doc_matches query) (docs m) of
             [] \<Rightarrow> Inr []
           | d # _ \<Rightarrow> Inr (project_doc filter_dict d)))"

definition set_field :: "string \<Rightarrow> string \<Rightarrow> user_doc \<Rightarrow> user_doc" where
  "set_field f v d =
     (if f = ''user_id'' then d\<lparr>doc_user_id := v\<rparr>
      else if f = ''username'' then d\<lparr>doc_username := v\<rparr>
      else if f = ''user_role'' then d\<lparr>doc_user_role := v\<rparr>
      else d\<lparr>doc_more := (f, v) # filter (\<lambda>kv. fst kv \<noteq> f) (doc_more d)\<rparr>)"

fun set_fields :: "(string \<times> string) list \<Rightarrow> user_doc \<Rightarrow> user_doc" where
  "set_fields [] d = d"
| "set_fields (kv # kvs) d = set_fields kvs (set_field (fst kv) (snd kv) d)"

text \<open>The first document that satisfies \<open>P\<close> is replaced by \<open>f\<close> of it.\<close>

fun update_first :: "('a \<Rightarrow> bool) \<Rightarrow> ('a \<Rightarrow> 'a) \<Rightarrow> 'a list \<Rightarrow> 'a list" where
  "update_first P f [] = []"
| "update_first P f (x # xs) = (if P x then f x # xs else x # update_first P f xs)"

text \<open>
  \<open>update_one\<close> without upsert, on string-valued data: the first matching document gets
  the fields set, and the result is the number of documents modified.  A \<open>"$set"\<close> key
  in such data cannot be unwrapped to a dict of fields, and the driver refuses it.
\<close>

definition update_one ::
    "mongo \<Rightarrow> mcond list \<Rightarrow> (string \<times> string) list \<Rightarrow> (exn + nat) \<times> mongo" where
  "update_one m query data_dict =
     (case mongo_fault m UpdateOne of
        Some msg \<Rightarrow> (Inl (MongoException (''exception  in update function as '' @ msg)), m)
      | None \<Rightarrow>
          if ''$set'' \<in> set (map fst data_dict)
          then (Inl (MongoException
                  (''exception  in update function as Modifiers operate on fields'')), m)
          else
            (let docs' = update_first (doc_matches query) (set_fields data_dict) (docs m) in
             (Inr (if docs' = docs m then 0 else 1), m\<lparr>docs := docs'\<rparr>)))"

definition update_user_info ::
    "mongo \<Rightarrow> UserUpdateModel \<Rightarrow> string \<Rightarrow> (exn + unit) \<times> mongo" where
  "update_user_info m request_data uid =
     (case find_one m [FieldEq ''username'' (username request_data),
                       FieldNe ''user_id'' (user_id request_data)] [''user_id''] of
        Inl e \<Rightarrow> (Inl e, m)
      | Inr other \<Rightarrow>
          if other \<noteq> [] then (Inl (CustomError ''Username already exists!!''), m)
          else
            (case find_one m [FieldEq ''user_id'' uid] [''user_id''] of
               Inl e \<Rightarrow> (Inl e, m)
             | Inr target \<Rightarrow>
                 if target \<noteq> [] then
                   (case update_one m [FieldEq ''user_id'' uid]
                           (UserUpdateModel_dump request_data) of
                      (Inl e, m') \<Rightarrow> (Inl e, m')
                    | (Inr n, m') \<Rightarrow> (Inr (), m'))
                 else (Inl (CustomError ''Unknown User !!''), m)))"

section \<open>Sample data\<close>

text \<open>
  Two stored categories and sessions over them: one whose database answers every statement,
  one whose database raises on every statement.  The sample engine keeps the stored order
  and matches no \<open>LIKE\<close> pattern.
\<close>

definition food_row :: row where
  "food_row =
     [(''category_id'', JStr ''c1''), (''category_name'', JStr ''Food''),
      (''description'', JStr ''groceries''),
      (''meta'', JObj [(''created_by'', JStr ''u1''), (''created_at'', JInt 100),
                      (''updated_at'', JInt 0), (''updated_by'', JStr [])])]"

definition travel_row :: row where
  "travel_row =
     [(''category_id'', JStr ''c2''), (''category_name'', JStr ''Travel''),
      (''description'', JStr ''trains''),
      (''meta'', JObj [(''created_by'', JStr ''u2''), (''created_at'', JInt 200),
                      (''updated_at'', JInt 0), (''updated_by'', JStr [])])]"

definition healthy_session :: "row list \<Rightarrow> session" where
  "healthy_session cats =
     \<lparr>tables = (\<lambda>n. if n = ''categories'' then cats else []),
      fault = (\<lambda>k. None),
      engine_like = (\<lambda>p v. False),
      engine_order = (\<lambda>cs rs. rs)\<rparr>"

definition failing_session :: "row list \<Rightarrow> session" where
  "failing_session cats =
     \<lparr>tables = (\<lambda>n. if n = ''categories'' then cats else []),
      fault = (\<lambda>k. Some (StoreError ''connection refused'')),
      engine_like = (\<lambda>p v. False),
      engine_order = (\<lambda>cs rs. rs)\<rparr>"

definition by_name :: "string \<Rightarrow> fetch_model" where
  "by_name n =
     \<lparr>fetch_user_id = ''u1'',
      filters = Some \<lparr>filterModel = [(''category_name'', JStr n)], sortModel = []\<rparr>\<rparr>"

definition lunch :: CreateTransactionModel where
  "lunch = \<lparr>t_id = Some [], t_category_id = ''c1'', amount = 12, t_description = Some ''lunch'',
            t_meta = None\<rparr>"

text \<open>Update requests: for an id that is not stored, for the name of another category, and for the first category.\<close>

definition unknown_update :: CreateCategoriesModel where
  "unknown_update =
     \<lparr>category_id = Some ''c9'', category_name = ''Rent'', description = Some ''flat'',
      meta = None\<rparr>"

definition rename_to_food :: CreateCategoriesModel where
  "rename_to_food =
     \<lparr>category_id = Some ''c2'', category_name = ''Food'', description = Some ''trains'',
      meta = None\<rparr>"

definition update_food :: CreateCategoriesModel where
  "update_food =
     \<lparr>category_id = Some ''c1'', category_name = ''Groceries'',
      description = Some ''food and drink'', meta = None\<rparr>"

text \<open>Two user profiles and a document store that answers every call.\<close>

definition alice :: user_doc where
  "alice = \<lparr>doc_user_id = ''u1'', doc_username = ''alice'', doc_user_role = ''admin'',
            doc_more = [(''email'', ''alice@example.org'')]\<rparr>"

definition bob :: user_doc where
  "bob = \<lparr>doc_user_id = ''u2'', doc_username = ''bob'', doc_user_role = ''user'', doc_more = []\<rparr>"

definition healthy_mongo :: "user_doc list \<Rightarrow> mongo" where
  "healthy_mongo ds = \<lparr>docs = ds, mongo_fault = (\<lambda>k. None)\<rparr>"

section \<open>Properties of the filter/sort compiler\<close>







lemma direct_column_other_direction_adds_nothing:
  "hasattr t (resolve_colId (colId e)) \<Longrightarrow> lower (sort_dir e) \<noteq> ''desc''
   \<Longrightarrow> lower (sort_dir e) \<noteq> ''asc'' \<Longrightarrow> add_sort t q e = Inr q"
  by (auto simp add: add_sort_def hasattr_def)

lemmas compiler_defs =
  add_filters_def add_sort_def add_filter_def resolve_colId_def key_column_map_def
  hasattr_def getattr_def columns_def Categories_def Transactions_def declarative_attrs_def
  lower_def lower_chr_def order_by_def filter_q_def select_all_def meta_text_def




text \<open>
  Claim C3 at the input \<open>{"colId": "created_at", "sort": "descending"}\<close>: on the
  \<open>meta.<field>\<close> path a direction that is neither \<open>desc\<close> nor \<open>asc\<close> falls into the
  \<open>else\<close> branch and adds an ascending order clause, whereas the same direction on a direct
  column adds none.
\<close>

theorem meta_sort_other_direction_orders_ascending:
  "add_filters Categories (select_all Categories)
        \<lparr>fetch_user_id = ''u1'', filters = Some \<lparr>filterModel = [], sortModel = [\<lparr>colId = ''created_at'', sort_dir = ''descending''\<rparr>]\<rparr>\<rparr>
     = Inr ((select_all Categories)\<lparr>q_order_by := [Asc (TextClause (meta_text ''created_at''))]\<rparr>)
   \<and> add_filters Categories (select_all Categories)
        \<lparr>fetch_user_id = ''u1'', filters = Some \<lparr>filterModel = [], sortModel = [\<lparr>colId = ''category_name'', sort_dir = ''descending''\<rparr>]\<rparr>\<rparr>
     = Inr (select_all Categories)"
  by (simp add: compiler_defs)

section \<open>Properties of the table accessor and the fetch handlers\<close>

lemmas sample_defs =
  healthy_session_def failing_session_def food_row_def travel_row_def by_name_def

lemmas eval_defs =
  session_execute_def compile_stmt_def select_rows_def build_select_query_def matches_def
  project_def columns_def Categories_def declarative_attrs_def col_def add_filters_def
  add_filter_def hasattr_def getattr_def select_all_def filter_q_def

lemma project_nonempty: "project t r \<noteq> []"
  by (simp add: project_def columns_def)

lemma session_execute_rows_nonempty:
  "session_execute s q = Inr rows \<Longrightarrow> r \<in> set rows \<Longrightarrow> r \<noteq> []"
  by (auto simp add: session_execute_def select_rows_def Let_def project_nonempty
        project_nonempty [symmetric] split: option.splits if_splits)

lemma fetch_as_json_rows:
  "session_execute s q = Inr rows \<Longrightarrow>
   fetch_as_json s q = (if length rows = 1 then JObj (rows ! 0) else JArr (map JObj rows))"
  by (auto simp add: fetch_as_json_def session_execute_def Let_def split: option.splits)

lemma fetch_as_json_truthy:
  assumes "session_execute s q = Inr rows"
  shows "truthy (fetch_as_json s q) = (rows \<noteq> [])"
proof (cases rows)
  case Nil
  then show ?thesis using assms by (simp add: fetch_as_json_rows)
next
  case (Cons r rs)
  then have "r \<noteq> []" using session_execute_rows_nonempty [OF assms, of r] by simp
  then show ?thesis using assms Cons by (cases rs) (simp_all add: fetch_as_json_rows)
qed



lemma fetch_as_json_fault: "fault s Select = Some e \<Longrightarrow> fetch_as_json s q = JNull"
  by (simp add: fetch_as_json_def session_execute_def split: option.splits)

lemma write_failures_are_raised:
  "fault s Insert = Some e \<Longrightarrow> insert_row s t d = (Inl e, s)"
  "fault s Update = Some e \<Longrightarrow> update_with_where s t d w = (Inl e, s)"
  "fault s Upsert = Some e \<Longrightarrow> upsert s t d ks = (Inl e, s)"
  "fault s Delete = Some e \<Longrightarrow> delete_rows s t w = (Inl e, s)"
  "fault s Select = Some e \<Longrightarrow> select_from_table s t w True off lmt rc ob = Inl e"
  "fault s Select = Some e \<Longrightarrow> select_from_table s t w False off lmt True ob = Inl e"
  by (simp_all add: insert_row_def update_with_where_def upsert_def delete_rows_def
      select_from_table_def session_execute_def get_count_def)

text \<open>
  Claim C5 at a failing select: when the database raises on the select statement,
  \<open>select_from_table\<close> without \<open>select_one\<close> and without \<open>return_count\<close> does not raise; it
  returns \<open>None\<close>, because \<open>fetch_as_json\<close> logs the exception and drops it.  The writes,
  and the select with \<open>select_one\<close> or \<open>return_count\<close>, re-raise
  (\<open>write_failures_are_raised\<close>).
\<close>

theorem select_swallows_store_failure:
  "fault s Select = Some e \<Longrightarrow>
   session_execute s ((build_select_query t w off ob)\<lparr>q_limit := lmt\<rparr>) = Inl e
   \<and> select_from_table s t w False off lmt False ob = Inr JNull"
  by (simp add: select_from_table_def fetch_by_query_def fetch_as_json_fault session_execute_def)

theorem select_swallows_store_failure_witness:
  "fault (failing_session [food_row]) Select = Some (StoreError ''connection refused'')
   \<and> session_execute (failing_session [food_row])
        ((build_select_query Categories [Eq ''category_name'' (JStr ''Food'')] None [])\<lparr>q_limit := None\<rparr>)
       = Inl (StoreError ''connection refused'')
   \<and> select_from_table (failing_session [food_row]) Categories
        [Eq ''category_name'' (JStr ''Food'')] False None None False [] = Inr JNull"
proof -
  have f: "fault (failing_session [food_row]) Select = Some (StoreError ''connection refused'')"
    by (simp add: failing_session_def)
  from f select_swallows_store_failure [OF f, where t = Categories
      and w = "[Eq ''category_name'' (JStr ''Food'')]" and off = None and ob = "[]" and lmt = None]
  show ?thesis by simp
qed

text \<open>
  Claim C10: if the query execution raises during a category or transaction fetch,
  \<open>fetch_as_json\<close> returns \<open>None\<close>, the handler returns the empty list, and the HTTP
  layer answers with the success envelope around \<open>[]\<close>: the same response as for a
  healthy database on which the query matches no row.
\<close>

theorem store_failure_during_fetch_looks_empty:
  assumes "fault s Select = Some e"
  shows "fetch_as_json s q = JNull
     \<and> (add_filters Categories (select_all Categories) req = Inr q \<longrightarrow>
          fetch_categories s Categories req = Inr (JArr [])
        \<and> fetch_categories_service s req = DefaultResponseSchema (JArr [])
        \<and> (fault s0 Select = None \<and> select_rows s0 q = [] \<longrightarrow>
             fetch_categories_service s0 req = fetch_categories_service s req))
     \<and> (add_filters Transactions (select_all Transactions) req = Inr q \<longrightarrow>
          fetch_transaction s Transactions req = Inr (JArr [])
        \<and> fetch_transactions_service s req = DefaultResponseSchema (JArr [])
        \<and> (fault s0 Select = None \<and> select_rows s0 q = [] \<longrightarrow>
             fetch_transactions_service s0 req = fetch_transactions_service s req))"
proof -
  have n: "fetch_as_json s q = JNull"
    by (rule fetch_as_json_fault [OF assms])
  have z: "\<not> truthy (fetch_as_json s0 q)" if "fault s0 Select = None \<and> select_rows s0 q = []"
    using that by (simp add: fetch_as_json_def session_execute_def split: option.splits)
  have c: "fetch_categories s Categories req = Inr (JArr [])
        \<and> fetch_categories_service s req = DefaultResponseSchema (JArr [])
        \<and> (fault s0 Select = None \<and> select_rows s0 q = [] \<longrightarrow>
             fetch_categories_service s0 req = fetch_categories_service s req)"
    if "add_filters Categories (select_all Categories) req = Inr q"
    using that n z by (auto simp add: fetch_categories_def fetch_categories_service_def)
  have t: "fetch_transaction s Transactions req = Inr (JArr [])
        \<and> fetch_transactions_service s req = DefaultResponseSchema (JArr [])
        \<and> (fault s0 Select = None \<and> select_rows s0 q = [] \<longrightarrow>
             fetch_transactions_service s0 req = fetch_transactions_service s req)"
    if "add_filters Transactions (select_all Transactions) req = Inr q"
    using that n z by (auto simp add: fetch_transaction_def fetch_transactions_service_def)
  show ?thesis using n c t by blast
qed

theorem store_failure_during_fetch_looks_empty_witness:
  "fault (failing_session [food_row]) Select = Some (StoreError ''connection refused'')
   \<and> add_filters Categories (select_all Categories) (by_name ''Food'')
       = Inr (filter_q (select_all Categories) (Eq ''category_name'' (JStr ''Food'')))
   \<and> fetch_categories_service (failing_session [food_row]) (by_name ''Food'')
       = \<lparr>status = ''success'', message = ''success'', data = JArr [], error = None\<rparr>
   \<and> fault (healthy_session [travel_row]) Select = None
   \<and> select_rows (healthy_session [travel_row])
        (filter_q (select_all Categories) (Eq ''category_name'' (JStr ''Food''))) = []
   \<and> fetch_categories_service (healthy_session [travel_row]) (by_name ''Food'')
       = fetch_categories_service (failing_session [food_row]) (by_name ''Food'')
   \<and> add_filters Transactions (select_all Transactions) (by_name ''Food'') = Inr (select_all Transactions)
   \<and> fetch_transactions_service (failing_session [food_row]) (by_name ''Food'')
       = \<lparr>status = ''success'', message = ''success'', data = JArr [], error = None\<rparr>"
proof -
  have f: "fault (failing_session [food_row]) Select = Some (StoreError ''connection refused'')"
    by (simp add: failing_session_def)
  have a: "add_filters Categories (select_all Categories) (by_name ''Food'')
       = Inr (filter_q (select_all Categories) (Eq ''category_name'' (JStr ''Food'')))"
    by (simp add: sample_defs eval_defs)
  have h: "fault (healthy_session [travel_row]) Select = None"
    by (simp add: healthy_session_def)
  have z: "select_rows (healthy_session [travel_row])
        (filter_q (select_all Categories) (Eq ''category_name'' (JStr ''Food''))) = []"
    by (simp add: sample_defs eval_defs)
  have b: "add_filters Transactions (select_all Transactions) (by_name ''Food'')
       = Inr (select_all Transactions)"
    by (simp add: sample_defs eval_defs Transactions_def)
  from a h z store_failure_during_fetch_looks_empty [OF f, where req = "by_name ''Food''"
      and q = "filter_q (select_all Categories) (Eq ''category_name'' (JStr ''Food''))"
      and ?s0.0 = "healthy_session [travel_row]"]
  have p1: "fetch_categories_service (failing_session [food_row]) (by_name ''Food'')
       = DefaultResponseSchema (JArr [])
     \<and> fetch_categories_service (healthy_session [travel_row]) (by_name ''Food'')
       = fetch_categories_service (failing_session [food_row]) (by_name ''Food'')"
    by simp
  from b store_failure_during_fetch_looks_empty [OF f, where req = "by_name ''Food''"
      and q = "select_all Transactions" and ?s0.0 = "healthy_session [travel_row]"]
  have p2: "fetch_transactions_service (failing_session [food_row]) (by_name ''Food'')
       = DefaultResponseSchema (JArr [])"
    by simp
  show ?thesis using f a h z b p1 p2 by (simp add: DefaultResponseSchema_def)
qed

section \<open>Properties of the transaction handler\<close>

text \<open>
  Claim C9: a successful \<open>create_transaction\<close> returns the \<open>category_id\<close> of the request,
  not the generated \<open>t_id\<close>, and the success envelope carries it in \<open>data\<close>; the create
  succeeds whenever the insert is accepted.
\<close>

theorem create_transaction_returns_category_id:
  "(create_transaction s req uid new_id now = (Inr v, s') \<longrightarrow> v = t_category_id req)
   \<and> (create_transactions_service s req uid new_id now = (env, s') \<and> status env = ''success'' \<longrightarrow>
        data env = JStr (t_category_id req))
   \<and> (fault s Insert = None
        \<and> \<not> list_ex (\<lambda>r. col r ''t_id'' = JStr new_id) (tables s ''transaction'') \<longrightarrow>
        fst (create_transaction s req uid new_id now) = Inr (t_category_id req)
      \<and> fst (create_transactions_service s req uid new_id now)
          = DefaultResponseSchema (JStr (t_category_id req)))"
proof (intro conjI)
  show "create_transaction s req uid new_id now = (Inr v, s') \<longrightarrow> v = t_category_id req"
    by (auto simp add: create_transaction_def Let_def split: prod.splits sum.splits)
  show "create_transactions_service s req uid new_id now = (env, s') \<and> status env = ''success'' \<longrightarrow>
        data env = JStr (t_category_id req)"
    by (auto simp add: create_transactions_service_def create_transaction_def Let_def
        DefaultResponseSchema_def DefaultFailureSchema_def split: prod.splits sum.splits)
  show "fault s Insert = None
        \<and> \<not> list_ex (\<lambda>r. col r ''t_id'' = JStr new_id) (tables s ''transaction'') \<longrightarrow>
        fst (create_transaction s req uid new_id now) = Inr (t_category_id req)
      \<and> fst (create_transactions_service s req uid new_id now)
          = DefaultResponseSchema (JStr (t_category_id req))"
    by (simp add: create_transactions_service_def create_transaction_def Let_def insert_row_def
        Transactions_def CreateTransactionModel_dump_def col_def opt_str_def)
qed

theorem create_transaction_returns_category_id_witness:
  "create_transaction (healthy_session [food_row]) lunch ''u1'' ''t1'' 300
     = (Inr ''c1'', snd (create_transaction (healthy_session [food_row]) lunch ''u1'' ''t1'' 300))
   \<and> ''c1'' = t_category_id lunch
   \<and> fault (healthy_session [food_row]) Insert = None
   \<and> \<not> list_ex (\<lambda>r. col r ''t_id'' = JStr ''t1'') (tables (healthy_session [food_row]) ''transaction'')
   \<and> fst (create_transactions_service (healthy_session [food_row]) lunch ''u1'' ''t1'' 300)
       = \<lparr>status = ''success'', message = ''success'', data = JStr ''c1'', error = None\<rparr>
   \<and> status (fst (create_transactions_service (healthy_session [food_row]) lunch ''u1'' ''t1'' 300))
       = ''success''
   \<and> data (fst (create_transactions_service (healthy_session [food_row]) lunch ''u1'' ''t1'' 300))
       = JStr ''c1''"
proof -
  have f: "fault (healthy_session [food_row]) Insert = None"
    by (simp add: healthy_session_def)
  have n: "\<not> list_ex (\<lambda>r. col r ''t_id'' = JStr ''t1'') (tables (healthy_session [food_row]) ''transaction'')"
    by (simp add: healthy_session_def)
  have c: "t_category_id lunch = ''c1''"
    by (simp add: lunch_def)
  note inst = create_transaction_returns_category_id
      [where s = "healthy_session [food_row]" and req = lunch and uid = "''u1''"
         and new_id = "''t1''" and now = 300
         and v = "''c1''"
         and s' = "snd (create_transaction (healthy_session [food_row]) lunch ''u1'' ''t1'' 300)"
         and env = "fst (create_transactions_service (healthy_session [food_row]) lunch ''u1'' ''t1'' 300)"]
  from inst f n c
  have r: "fst (create_transaction (healthy_session [food_row]) lunch ''u1'' ''t1'' 300) = Inr ''c1''
     \<and> fst (create_transactions_service (healthy_session [food_row]) lunch ''u1'' ''t1'' 300)
          = DefaultResponseSchema (JStr ''c1'')"
    by simp
  then have e: "create_transaction (healthy_session [food_row]) lunch ''u1'' ''t1'' 300
     = (Inr ''c1'', snd (create_transaction (healthy_session [food_row]) lunch ''u1'' ''t1'' 300))"
    by (simp add: prod_eq_iff)
  show ?thesis using f n c r e by (simp add: DefaultResponseSchema_def)
qed


section \<open>Properties of the category handler\<close>

lemma matches_single_Eq [simp]: "matches s [Eq c v] = (\<lambda>r. col r c = v)"
  by (rule ext) (simp add: matches_def)

lemma table_attr_Categories [simp]:
  "table_attr Categories ''category_id'' = Inr (ColumnAttr ''category_id'')"
  "table_attr Categories ''category_name'' = Inr (ColumnAttr ''category_name'')"
  by (simp_all add: table_attr_def getattr_def columns_def Categories_def)

lemma tablename_Categories [simp]: "tablename Categories = ''categories''"
  by (simp add: Categories_def)

lemma select_default_is_fetch:
  "select_from_table s t w False None None False []
   = Inr (fetch_as_json s (build_select_query t w None []))"
  by (simp add: select_from_table_def fetch_by_query_def build_select_query_def)

lemma compile_stmt_plain [simp]: "compile_stmt (build_select_query t w off []) = None"
  by (simp add: compile_stmt_def build_select_query_def)

lemma select_rows_plain:
  "select_rows s (build_select_query t w None [])
   = map (project t) (filter (matches s w) (tables s (tablename t)))"
  by (simp add: select_rows_def build_select_query_def)

lemma fetch_plain_truthy:
  "truthy (fetch_as_json s (build_select_query t w None []))
   = (fault s Select = None \<and> list_ex (matches s w) (tables s (tablename t)))"
proof (cases "fault s Select")
  case None
  then have ex: "session_execute s (build_select_query t w None [])
                 = Inr (select_rows s (build_select_query t w None []))"
    by (simp add: session_execute_def)
  show ?thesis
    using fetch_as_json_truthy [OF ex] None
    by (simp add: select_rows_plain filter_empty_conv list_ex_iff)
next
  case (Some e)
  then show ?thesis by (simp add: fetch_as_json_fault)
qed

lemma validate_opt_str_dump: "validate_opt_str j = Inr x \<Longrightarrow> opt_str x = j"
  by (cases j) (auto simp add: opt_str_def)

lemma validate_opt_int_dump: "validate_opt_int j = Inr x \<Longrightarrow> opt_int x = j"
  by (cases j) (auto simp add: opt_int_def)

lemma stamped_meta_dump:
  "MetaData_validate [(''created_at'', ca), (''created_by'', cb),
                      (''updated_by'', JStr uid), (''updated_at'', JInt now)] = Inr md
   \<Longrightarrow> MetaData_dump md = JObj [(''created_by'', cb), (''created_at'', ca),
                                (''updated_at'', JInt now), (''updated_by'', JStr uid)]"
  by (auto simp add: MetaData_validate_def field_or_def MetaData_dump_def opt_str_def opt_int_def
      split: sum.splits dest: validate_opt_str_dump validate_opt_int_dump)

lemma col_set_col: "col (set_col k v r) k' = (if k' = k then v else col r k')"
  by (induction r) (auto simp add: col_def)

lemma subscript_project_meta:
  "subscript (JObj (project Categories r)) ''meta'' = Inr (col r ''meta'')"
  by (simp add: project_def columns_def Categories_def)

lemma col_set_cols_dump:
  "col (set_cols [(''category_id'', a), (''category_name'', b), (''description'', c), (''meta'', d)] r) k
   = (if k = ''meta'' then d else if k = ''description'' then c
      else if k = ''category_name'' then b else if k = ''category_id'' then a else col r k)"
  by (simp add: col_set_col)

lemma update_categories_success:
  assumes ok: "update_categories s Categories req uid now = (Inr (), s')"
  shows "\<exists>r cb ca.
      filter (\<lambda>x. col x ''category_id'' = opt_str (category_id req)) (tables s ''categories'') = [r]
    \<and> subscript (col r ''meta'') ''created_by'' = Inr cb
    \<and> subscript (col r ''meta'') ''created_at'' = Inr ca
    \<and> s' = put_rows s Categories
          (map (\<lambda>x. if col x ''category_id'' = opt_str (category_id req)
                    then set_cols
                      [(''category_id'', opt_str (category_id req)),
                       (''category_name'', JStr (category_name req)),
                       (''description'', opt_str (description req)),
                       (''meta'', JObj [(''created_by'', cb), (''created_at'', ca),
                                       (''updated_at'', JInt now), (''updated_by'', JStr uid)])] x
                    else x)
             (tables s ''categories''))"
proof -
  let ?v = "opt_str (category_id req)"
  let ?q = "build_select_query Categories [Eq ''category_id'' ?v] None []"
  let ?cd = "fetch_as_json s ?q"
  let ?hit = "filter (\<lambda>x. col x ''category_id'' = ?v) (tables s ''categories'')"
  have tr: "truthy ?cd"
    using ok by (auto simp add: update_categories_def select_default_is_fetch split: if_splits)
  then have nofault: "fault s Select = None"
    by (simp add: fetch_plain_truthy)
  then have ex: "session_execute s ?q = Inr (map (project Categories) ?hit)"
    by (simp add: session_execute_def select_rows_plain)
  have shape: "?cd = (if length ?hit = 1 then JObj (project Categories (?hit ! 0))
                      else JArr (map JObj (map (project Categories) ?hit)))"
    using fetch_as_json_rows [OF ex] by simp
  obtain m where m: "subscript ?cd ''meta'' = Inr m"
    using ok tr by (auto simp add: update_categories_def select_default_is_fetch split: sum.splits)
  have one: "length ?hit = 1"
  proof (rule ccontr)
    assume "length ?hit \<noteq> 1"
    then have "?cd = JArr (map JObj (map (project Categories) ?hit))" using shape by simp
    then show False using m by simp
  qed
  then obtain r where r: "?hit = [r]"
    by (cases ?hit) auto
  have cd: "?cd = JObj (project Categories r)"
    using shape one r by simp
  have "subscript ?cd ''meta'' = Inr (col r ''meta'')"
    by (simp only: cd subscript_project_meta)
  then have mm: "m = col r ''meta''"
    using m by simp
  obtain ca where ca: "subscript (col r ''meta'') ''created_at'' = Inr ca"
    using ok tr m mm
    by (auto simp add: update_categories_def select_default_is_fetch split: sum.splits)
  obtain cb where cb: "subscript (col r ''meta'') ''created_by'' = Inr cb"
    using ok tr m mm ca
    by (auto simp add: update_categories_def select_default_is_fetch split: sum.splits)
  obtain md where md: "MetaData_validate [(''created_at'', ca), (''created_by'', cb),
                      (''updated_by'', JStr uid), (''updated_at'', JInt now)] = Inr md"
    using ok tr m mm ca cb
    by (auto simp add: update_categories_def select_default_is_fetch split: sum.splits)
  have upd: "update_with_where s Categories (CreateCategoriesModel_dump (req\<lparr>meta := Some md\<rparr>))
               [Eq ''category_id'' ?v] = (Inr (), s')"
    using ok tr m mm ca cb md
    by (simp add: update_categories_def select_default_is_fetch)
  have dump: "CreateCategoriesModel_dump (req\<lparr>meta := Some md\<rparr>)
     = [(''category_id'', ?v), (''category_name'', JStr (category_name req)),
        (''description'', opt_str (description req)),
        (''meta'', JObj [(''created_by'', cb), (''created_at'', ca),
                        (''updated_at'', JInt now), (''updated_by'', JStr uid)])]"
    using stamped_meta_dump [OF md] by (simp add: CreateCategoriesModel_dump_def opt_meta_def)
  have s': "s' = put_rows s Categories
          (map (\<lambda>x. if col x ''category_id'' = ?v
                    then set_cols (CreateCategoriesModel_dump (req\<lparr>meta := Some md\<rparr>)) x
                    else x)
             (tables s ''categories''))"
    using upd by (auto simp add: update_with_where_def split: option.splits)
  have s'': "s' = put_rows s Categories
          (map (\<lambda>x. if col x ''category_id'' = ?v
                    then set_cols
                      [(''category_id'', ?v), (''category_name'', JStr (category_name req)),
                       (''description'', opt_str (description req)),
                       (''meta'', JObj [(''created_by'', cb), (''created_at'', ca),
                                       (''updated_at'', JInt now), (''updated_by'', JStr uid)])] x
                    else x)
             (tables s ''categories''))"
    using s' unfolding dump .
  show ?thesis using r cb ca s'' by blast
qed

lemma create_existing_name_is_rejected:
  "fault s Select = None
   \<Longrightarrow> list_ex (\<lambda>r. col r ''category_name'' = JStr (category_name req)) (tables s ''categories'')
   \<Longrightarrow> create_categories s Categories req uid new_id now
       = (Inl (CustomError ''Category already exists!!''), s)"
  by (simp add: create_categories_def select_default_is_fetch fetch_plain_truthy)

lemmas handler_defs =
  update_categories_def table_attr_def select_default_is_fetch fetch_as_json_def
  update_with_where_def put_rows_def MetaData_validate_def field_or_def
  CreateCategoriesModel_dump_def MetaData_dump_def opt_meta_def opt_str_def opt_int_def

text \<open>
  Claim C7: updating a category whose \<open>category_id\<close> matches no stored row fails with
  \<open>CustomError("Invalid category_id !!")\<close>, the not-found error, and writes nothing: the
  session after the call is the session before it.
\<close>

theorem update_unknown_category_is_rejected:
  "\<not> list_ex (\<lambda>r. col r ''category_id'' = opt_str (category_id req)) (tables s ''categories'')
   \<Longrightarrow> update_categories s Categories req uid now = (Inl (CustomError ''Invalid category_id !!''), s)
     \<and> update_categories_service s req uid now
       = (DefaultFailureSchema ''Failed to update categories'' ''Invalid category_id !!'', s)"
  by (simp add: update_categories_def update_categories_service_def select_default_is_fetch
      fetch_plain_truthy)

theorem update_unknown_category_is_rejected_witness:
  "\<not> list_ex (\<lambda>r. col r ''category_id'' = opt_str (category_id unknown_update))
        (tables (healthy_session [food_row, travel_row]) ''categories'')
   \<and> update_categories (healthy_session [food_row, travel_row]) Categories unknown_update ''u1'' 300
     = (Inl (CustomError ''Invalid category_id !!''), healthy_session [food_row, travel_row])"
proof -
  have h: "\<not> list_ex (\<lambda>r. col r ''category_id'' = opt_str (category_id unknown_update))
        (tables (healthy_session [food_row, travel_row]) ''categories'')"
    by (simp add: sample_defs unknown_update_def col_def opt_str_def)
  from h update_unknown_category_is_rejected [OF h, of "''u1''" 300]
  show ?thesis by simp
qed

text \<open>
  Claim C8, as the code has it: after a successful update exactly one row matched the
  \<open>category_id\<close>; its \<open>meta.created_by\<close> and \<open>meta.created_at\<close> are the values stored before,
  \<open>meta.updated_by\<close> is the requesting user and \<open>meta.updated_at\<close> the current time;
  \<open>category_name\<close> and \<open>description\<close> are overwritten with the values of the request model
  (for \<open>description\<close> that is the default \<open>""\<close> when the payload leaves it out); the
  \<open>category_id\<close>, every other row and every other table are unchanged.
\<close>

theorem update_categories_keeps_created_and_stamps_updated:
  assumes ok: "update_categories s Categories req uid now = (Inr (), s')"
  shows "\<exists>r r' cb ca.
      filter (\<lambda>x. col x ''category_id'' = opt_str (category_id req)) (tables s ''categories'') = [r]
    \<and> tables s' ''categories''
        = map (\<lambda>x. if col x ''category_id'' = opt_str (category_id req) then r' else x)
            (tables s ''categories'')
    \<and> (\<forall>n. n \<noteq> ''categories'' \<longrightarrow> tables s' n = tables s n)
    \<and> subscript (col r ''meta'') ''created_by'' = Inr cb
    \<and> subscript (col r ''meta'') ''created_at'' = Inr ca
    \<and> col r' ''meta'' = JObj [(''created_by'', cb), (''created_at'', ca),
                              (''updated_at'', JInt now), (''updated_by'', JStr uid)]
    \<and> col r' ''category_name'' = JStr (category_name req)
    \<and> col r' ''description'' = opt_str (description req)
    \<and> col r' ''category_id'' = col r ''category_id''
    \<and> (\<forall>k. k \<noteq> ''category_id'' \<and> k \<noteq> ''category_name'' \<and> k \<noteq> ''description''
             \<and> k \<noteq> ''meta'' \<longrightarrow> col r' k = col r k)"
proof -
  let ?v = "opt_str (category_id req)"
  let ?P = "\<lambda>x. col x ''category_id'' = ?v"
  obtain r cb ca where
    r: "filter ?P (tables s ''categories'') = [r]" and
    cb: "subscript (col r ''meta'') ''created_by'' = Inr cb" and
    ca: "subscript (col r ''meta'') ''created_at'' = Inr ca" and
    s': "s' = put_rows s Categories
          (map (\<lambda>x. if ?P x
                    then set_cols
                      [(''category_id'', ?v), (''category_name'', JStr (category_name req)),
                       (''description'', opt_str (description req)),
                       (''meta'', JObj [(''created_by'', cb), (''created_at'', ca),
                                       (''updated_at'', JInt now), (''updated_by'', JStr uid)])] x
                    else x)
             (tables s ''categories''))"
    using update_categories_success [OF ok] by blast
  let ?d = "[(''category_id'', ?v), (''category_name'', JStr (category_name req)),
             (''description'', opt_str (description req)),
             (''meta'', JObj [(''created_by'', cb), (''created_at'', ca),
                             (''updated_at'', JInt now), (''updated_by'', JStr uid)])]"
  let ?r' = "set_cols ?d r"
  have only: "x = r" if "x \<in> set (tables s ''categories'')" and "?P x" for x
  proof -
    from that have "x \<in> set (filter ?P (tables s ''categories''))" by simp
    then show ?thesis by (simp only: r) simp
  qed
  have rP: "?P r"
  proof -
    have "r \<in> set (filter ?P (tables s ''categories''))" by (simp only: r) simp
    then show ?thesis by simp
  qed
  have tab: "tables s' ''categories''
        = map (\<lambda>x. if ?P x then ?r' else x) (tables s ''categories'')"
    using only by (auto simp add: s' put_rows_def)
  have others: "\<forall>n. n \<noteq> ''categories'' \<longrightarrow> tables s' n = tables s n"
    by (simp add: s' put_rows_def)
  have c1: "col ?r' ''meta'' = JObj [(''created_by'', cb), (''created_at'', ca),
                              (''updated_at'', JInt now), (''updated_by'', JStr uid)]"
    by (simp only: col_set_cols_dump) simp
  have c2: "col ?r' ''category_name'' = JStr (category_name req)"
    by (simp only: col_set_cols_dump) simp
  have c3: "col ?r' ''description'' = opt_str (description req)"
    by (simp only: col_set_cols_dump) simp
  have c4: "col ?r' ''category_id'' = col r ''category_id''"
    using rP by (simp only: col_set_cols_dump) simp
  have c5: "\<forall>k. k \<noteq> ''category_id'' \<and> k \<noteq> ''category_name'' \<and> k \<noteq> ''description''
             \<and> k \<noteq> ''meta'' \<longrightarrow> col ?r' k = col r k"
    by (simp only: col_set_cols_dump) simp
  show ?thesis
    using r tab others cb ca c1 c2 c3 c4 c5 by blast
qed

theorem update_categories_keeps_created_and_stamps_updated_witness:
  "update_categories (healthy_session [food_row, travel_row]) Categories update_food ''u9'' 300
     = (Inr (), snd (update_categories (healthy_session [food_row, travel_row]) Categories
                       update_food ''u9'' 300))
   \<and> (\<exists>r'. tables (snd (update_categories (healthy_session [food_row, travel_row]) Categories
                            update_food ''u9'' 300)) ''categories'' = [r', travel_row]
          \<and> col r' ''meta'' = JObj [(''created_by'', JStr ''u1''), (''created_at'', JInt 100),
                                    (''updated_at'', JInt 300), (''updated_by'', JStr ''u9'')]
          \<and> col r' ''category_name'' = JStr ''Groceries''
          \<and> col r' ''description'' = JStr ''food and drink''
          \<and> col r' ''category_id'' = JStr ''c1'')"
proof -
  let ?s = "healthy_session [food_row, travel_row]"
  let ?s' = "snd (update_categories ?s Categories update_food ''u9'' 300)"
  have "fst (update_categories ?s Categories update_food ''u9'' 300) = Inr ()"
    by (simp add: handler_defs sample_defs eval_defs update_food_def)
  then have ok: "update_categories ?s Categories update_food ''u9'' 300 = (Inr (), ?s')"
    by (simp add: prod_eq_iff)
  have hit: "filter (\<lambda>x. col x ''category_id'' = opt_str (category_id update_food))
               (tables ?s ''categories'') = [food_row]"
    by (simp add: sample_defs update_food_def col_def opt_str_def)
  have m1: "subscript (col food_row ''meta'') ''created_by'' = Inr (JStr ''u1'')"
    by (simp add: food_row_def col_def)
  have m2: "subscript (col food_row ''meta'') ''created_at'' = Inr (JInt 100)"
    by (simp add: food_row_def col_def)
  have c: "col food_row ''category_id'' = JStr ''c1''"
    by (simp add: food_row_def col_def)
  have t: "col travel_row ''category_id'' = JStr ''c2''"
    by (simp add: travel_row_def col_def)
  have tabs: "tables ?s ''categories'' = [food_row, travel_row]"
    by (simp add: healthy_session_def)
  have req: "category_name update_food = ''Groceries''"
    "opt_str (description update_food) = JStr ''food and drink''"
    "opt_str (category_id update_food) = JStr ''c1''"
    by (simp_all add: update_food_def opt_str_def)
  from update_categories_keeps_created_and_stamps_updated [OF ok]
  obtain r r' cb ca where h:
     "filter (\<lambda>x. col x ''category_id'' = opt_str (category_id update_food))
          (tables ?s ''categories'') = [r]
    \<and> tables ?s' ''categories''
        = map (\<lambda>x. if col x ''category_id'' = opt_str (category_id update_food) then r' else x)
            (tables ?s ''categories'')
    \<and> (\<forall>n. n \<noteq> ''categories'' \<longrightarrow> tables ?s' n = tables ?s n)
    \<and> subscript (col r ''meta'') ''created_by'' = Inr cb
    \<and> subscript (col r ''meta'') ''created_at'' = Inr ca
    \<and> col r' ''meta'' = JObj [(''created_by'', cb), (''created_at'', ca),
                              (''updated_at'', JInt 300), (''updated_by'', JStr ''u9'')]
    \<and> col r' ''category_name'' = JStr (category_name update_food)
    \<and> col r' ''description'' = opt_str (description update_food)
    \<and> col r' ''category_id'' = col r ''category_id''
    \<and> (\<forall>k. k \<noteq> ''category_id'' \<and> k \<noteq> ''category_name'' \<and> k \<noteq> ''description''
             \<and> k \<noteq> ''meta'' \<longrightarrow> col r' k = col r k)"
    by (elim exE) (rule that)
  have a: "filter (\<lambda>x. col x ''category_id'' = opt_str (category_id update_food))
          (tables ?s ''categories'') = [r]"
    using h by (rule conjunct1)
  have b: "tables ?s' ''categories''
        = map (\<lambda>x. if col x ''category_id'' = opt_str (category_id update_food) then r' else x)
            (tables ?s ''categories'')"
    using h by (elim conjE)
  have d1: "subscript (col r ''meta'') ''created_by'' = Inr cb"
    using h by (elim conjE)
  have d2: "subscript (col r ''meta'') ''created_at'' = Inr ca"
    using h by (elim conjE)
  have d3: "col r' ''meta'' = JObj [(''created_by'', cb), (''created_at'', ca),
                              (''updated_at'', JInt 300), (''updated_by'', JStr ''u9'')]"
    using h by (elim conjE)
  have d4: "col r' ''category_name'' = JStr (category_name update_food)"
    using h by (elim conjE)
  have d5: "col r' ''description'' = opt_str (description update_food)"
    using h by (elim conjE)
  have d6: "col r' ''category_id'' = col r ''category_id''"
    using h by (elim conjE)
  from a hit have r: "r = food_row" by simp
  have "tables ?s' ''categories'' = [r', travel_row]"
    unfolding b tabs req using c t by simp
  moreover have "col r' ''meta'' = JObj [(''created_by'', JStr ''u1''), (''created_at'', JInt 100),
                                    (''updated_at'', JInt 300), (''updated_by'', JStr ''u9'')]"
    using d1 d2 d3 m1 m2 r by simp
  moreover have "col r' ''category_name'' = JStr ''Groceries''"
    using d4 req by simp
  moreover have "col r' ''description'' = JStr ''food and drink''"
    using d5 req by simp
  moreover have "col r' ''category_id'' = JStr ''c1''"
    using d6 c r by simp
  ultimately show ?thesis using ok by blast
qed

text \<open>
  Claim C8 as stated fails on the frame: the payload \<open>{"category_id": "c1", "category_name":
  "Food"}\<close> supplies no \<open>description\<close>, the request model fills in the default \<open>""\<close>, and
  the update overwrites the stored description \<open>groceries\<close> with it.
\<close>

theorem omitted_description_is_overwritten:
  "CreateCategoriesModel_validate [(''category_id'', JStr ''c1''), (''category_name'', JStr ''Food'')]
     = Inr \<lparr>category_id = Some ''c1'', category_name = ''Food'', description = Some [], meta = None\<rparr>
   \<and> map_of [(''category_id'', JStr ''c1''), (''category_name'', JStr ''Food'')] ''description'' = None
   \<and> map (\<lambda>r. col r ''description'') (tables (healthy_session [food_row, travel_row]) ''categories'')
     = [JStr ''groceries'', JStr ''trains'']
   \<and> fst (update_categories (healthy_session [food_row, travel_row]) Categories
            \<lparr>category_id = Some ''c1'', category_name = ''Food'', description = Some [], meta = None\<rparr>
            ''u1'' 300) = Inr ()
   \<and> map (\<lambda>r. col r ''description'')
        (tables (snd (update_categories (healthy_session [food_row, travel_row]) Categories
            \<lparr>category_id = Some ''c1'', category_name = ''Food'', description = Some [], meta = None\<rparr>
            ''u1'' 300)) ''categories'')
     = [JStr [], JStr ''trains'']"
  by (simp add: handler_defs sample_defs eval_defs CreateCategoriesModel_validate_def)

text \<open>
  Claim C4 on the update path: \<open>update_categories\<close> makes no check of the name, so renaming
  the second category to the name of the first succeeds and leaves two rows named \<open>Food\<close>.
  The create path does make the check (\<open>create_existing_name_is_rejected\<close>).
\<close>

theorem update_can_duplicate_category_name:
  "map (\<lambda>r. col r ''category_name'') (tables (healthy_session [food_row, travel_row]) ''categories'')
     = [JStr ''Food'', JStr ''Travel'']
   \<and> fst (update_categories (healthy_session [food_row, travel_row]) Categories
            rename_to_food ''u2'' 300) = Inr ()
   \<and> map (\<lambda>r. col r ''category_name'')
        (tables (snd (update_categories (healthy_session [food_row, travel_row]) Categories
                        rename_to_food ''u2'' 300)) ''categories'')
     = [JStr ''Food'', JStr ''Food'']"
  by (simp add: handler_defs sample_defs eval_defs rename_to_food_def)

section \<open>Properties of the user handler\<close>

lemma username_query_matches:
  "doc_matches [FieldEq ''username'' u, FieldNe ''user_id'' x]
   = (\<lambda>d. doc_username d = u \<and> doc_user_id d \<noteq> x)"
  by (rule ext) (simp add: doc_matches_def doc_field_def)

lemma user_id_query_matches:
  "doc_matches [FieldEq ''user_id'' x] = (\<lambda>d. doc_user_id d = x)"
  by (rule ext) (simp add: doc_matches_def doc_field_def)

lemma find_one_user_id_truthy:
  "mongo_fault m FindOne = None \<Longrightarrow>
   \<exists>r. find_one m query [''user_id''] = Inr r \<and> (r \<noteq> []) = list_ex (doc_matches query) (docs m)"
  by (cases "filter (doc_matches query) (docs m)")
     (auto simp add: find_one_def project_doc_def doc_field_def filter_empty_conv list_ex_iff
        filter_eq_Cons_iff)

lemma set_fields_dump:
  "set_fields (UserUpdateModel_dump req) d
   = d\<lparr>doc_username := username req, doc_user_role := user_role req, doc_user_id := user_id req\<rparr>"
  by (simp add: UserUpdateModel_dump_def set_field_def)

text \<open>
  What \<open>update_user_info\<close> does when the document store answers the lookups.  The username
  check excludes the \<open>user_id\<close> of the request body, the existence check and the write use
  the \<open>user_id\<close> argument of the handler: the call fails with
  \<open>CustomError("Username already exists!!")\<close> when a document with another \<open>user_id\<close> than
  the request's holds the requested \<open>username\<close>, otherwise with
  \<open>CustomError("Unknown User !!")\<close> when no document has the target \<open>user_id\<close>, in both
  cases leaving the collection untouched; otherwise it sets the three profile fields of the
  target document.
\<close>

theorem update_user_info_checks_before_writing:
  assumes "mongo_fault m FindOne = None"
  shows
   "(list_ex (\<lambda>d. doc_username d = username req \<and> doc_user_id d \<noteq> user_id req) (docs m) \<longrightarrow>
       update_user_info m req uid = (Inl (CustomError ''Username already exists!!''), m))
  \<and> (\<not> list_ex (\<lambda>d. doc_username d = username req \<and> doc_user_id d \<noteq> user_id req) (docs m)
      \<and> \<not> list_ex (\<lambda>d. doc_user_id d = uid) (docs m) \<longrightarrow>
       update_user_info m req uid = (Inl (CustomError ''Unknown User !!''), m))
  \<and> (\<not> list_ex (\<lambda>d. doc_username d = username req \<and> doc_user_id d \<noteq> user_id req) (docs m)
      \<and> list_ex (\<lambda>d. doc_user_id d = uid) (docs m) \<and> mongo_fault m UpdateOne = None \<longrightarrow>
       update_user_info m req uid
       = (Inr (), m\<lparr>docs := update_first (\<lambda>d. doc_user_id d = uid)
                       (\<lambda>d. d\<lparr>doc_username := username req, doc_user_role := user_role req,
                                doc_user_id := user_id req\<rparr>) (docs m)\<rparr>))"
proof -
  let ?q1 = "[FieldEq ''username'' (username req), FieldNe ''user_id'' (user_id req)]"
  let ?q2 = "[FieldEq ''user_id'' uid]"
  obtain r1 where r1: "find_one m ?q1 [''user_id''] = Inr r1"
    "(r1 \<noteq> []) = list_ex (\<lambda>d. doc_username d = username req \<and> doc_user_id d \<noteq> user_id req) (docs m)"
    using find_one_user_id_truthy [OF assms, of ?q1] by (auto simp add: username_query_matches)
  obtain r2 where r2: "find_one m ?q2 [''user_id''] = Inr r2"
    "(r2 \<noteq> []) = list_ex (\<lambda>d. doc_user_id d = uid) (docs m)"
    using find_one_user_id_truthy [OF assms, of ?q2] by (auto simp add: user_id_query_matches)
  have dumpkeys: "''$set'' \<notin> set (map fst (UserUpdateModel_dump req))"
    by (simp add: UserUpdateModel_dump_def)
  have sf: "set_fields (UserUpdateModel_dump req)
            = (\<lambda>d. d\<lparr>doc_username := username req, doc_user_role := user_role req,
                      doc_user_id := user_id req\<rparr>)"
    by (rule ext) (rule set_fields_dump)
  have upd: "update_one m ?q2 (UserUpdateModel_dump req)
     = (Inr (if update_first (\<lambda>d. doc_user_id d = uid)
                       (\<lambda>d. d\<lparr>doc_username := username req, doc_user_role := user_role req,
                                doc_user_id := user_id req\<rparr>) (docs m) = docs m then 0 else 1),
        m\<lparr>docs := update_first (\<lambda>d. doc_user_id d = uid)
                       (\<lambda>d. d\<lparr>doc_username := username req, doc_user_role := user_role req,
                                doc_user_id := user_id req\<rparr>) (docs m)\<rparr>)"
    if "mongo_fault m UpdateOne = None"
    using that dumpkeys by (simp add: update_one_def sf user_id_query_matches Let_def)
  show ?thesis
    using r1 r2 upd by (auto simp add: update_user_info_def)
qed

theorem update_user_info_checks_before_writing_witness:
  "mongo_fault (healthy_mongo [alice, bob]) FindOne = None
   \<and> list_ex (\<lambda>d. doc_username d = ''bob'' \<and> doc_user_id d \<noteq> ''u1'') (docs (healthy_mongo [alice, bob]))
   \<and> update_user_info (healthy_mongo [alice, bob])
        \<lparr>username = ''bob'', user_role = ''admin'', user_id = ''u1''\<rparr> ''u1''
       = (Inl (CustomError ''Username already exists!!''), healthy_mongo [alice, bob])
   \<and> \<not> list_ex (\<lambda>d. doc_username d = ''carol'' \<and> doc_user_id d \<noteq> ''u9'') (docs (healthy_mongo [alice, bob]))
   \<and> \<not> list_ex (\<lambda>d. doc_user_id d = ''u9'') (docs (healthy_mongo [alice, bob]))
   \<and> update_user_info (healthy_mongo [alice, bob])
        \<lparr>username = ''carol'', user_role = ''user'', user_id = ''u9''\<rparr> ''u9''
       = (Inl (CustomError ''Unknown User !!''), healthy_mongo [alice, bob])
   \<and> \<not> list_ex (\<lambda>d. doc_username d = ''alice'' \<and> doc_user_id d \<noteq> ''u1'') (docs (healthy_mongo [alice, bob]))
   \<and> list_ex (\<lambda>d. doc_user_id d = ''u1'') (docs (healthy_mongo [alice, bob]))
   \<and> mongo_fault (healthy_mongo [alice, bob]) UpdateOne = None
   \<and> update_user_info (healthy_mongo [alice, bob])
        \<lparr>username = ''alice'', user_role = ''user'', user_id = ''u1''\<rparr> ''u1''
       = (Inr (), healthy_mongo [alice\<lparr>doc_user_role := ''user''\<rparr>, bob])"
proof -
  let ?m = "healthy_mongo [alice, bob]"
  have f: "mongo_fault ?m FindOne = None"
    by (simp add: healthy_mongo_def)
  have u: "mongo_fault ?m UpdateOne = None"
    by (simp add: healthy_mongo_def)
  have c1: "list_ex (\<lambda>d. doc_username d = ''bob'' \<and> doc_user_id d \<noteq> ''u1'') (docs ?m)"
    by (simp add: healthy_mongo_def alice_def bob_def)
  have c2: "\<not> list_ex (\<lambda>d. doc_username d = ''carol'' \<and> doc_user_id d \<noteq> ''u9'') (docs ?m)"
    "\<not> list_ex (\<lambda>d. doc_user_id d = ''u9'') (docs ?m)"
    by (simp_all add: healthy_mongo_def alice_def bob_def)
  have c3: "\<not> list_ex (\<lambda>d. doc_username d = ''alice'' \<and> doc_user_id d \<noteq> ''u1'') (docs ?m)"
    "list_ex (\<lambda>d. doc_user_id d = ''u1'') (docs ?m)"
    by (simp_all add: healthy_mongo_def alice_def bob_def)
  have r1: "update_user_info ?m \<lparr>username = ''bob'', user_role = ''admin'', user_id = ''u1''\<rparr> ''u1''
       = (Inl (CustomError ''Username already exists!!''), ?m)"
    using c1 update_user_info_checks_before_writing [OF f,
        of "\<lparr>username = ''bob'', user_role = ''admin'', user_id = ''u1''\<rparr>" "''u1''"]
    by simp
  have r2: "update_user_info ?m \<lparr>username = ''carol'', user_role = ''user'', user_id = ''u9''\<rparr> ''u9''
       = (Inl (CustomError ''Unknown User !!''), ?m)"
    using c2 update_user_info_checks_before_writing [OF f,
        of "\<lparr>username = ''carol'', user_role = ''user'', user_id = ''u9''\<rparr>" "''u9''"]
    by simp
  have r3: "update_user_info ?m \<lparr>username = ''alice'', user_role = ''user'', user_id = ''u1''\<rparr> ''u1''
       = (Inr (), healthy_mongo [alice\<lparr>doc_user_role := ''user''\<rparr>, bob])"
    using c3 u update_user_info_checks_before_writing [OF f,
        of "\<lparr>username = ''alice'', user_role = ''user'', user_id = ''u1''\<rparr>" "''u1''"]
    by (simp add: healthy_mongo_def alice_def bob_def)
  show ?thesis using f u c1 c2 c3 r1 r2 r3 by simp
qed

text \<open>
  Claim C6 at a request whose \<open>user_id\<close> is not the target's: the target is \<open>u1\<close>, the
  request asks for the username \<open>bob\<close>, which the document of \<open>u2\<close> holds, and carries
  \<open>user_id = "u2"\<close>.  The username check excludes \<open>u2\<close> instead of the target, finds
  nothing, and the update writes \<open>bob\<close> into the document of \<open>u1\<close>: no conflict error,
  and two documents with the same username.
\<close>

theorem update_user_info_misses_conflict_with_other_owner:
  "docs (healthy_mongo [alice, bob]) = [alice, bob]
   \<and> doc_user_id alice = ''u1''
   \<and> doc_username bob = ''bob'' \<and> doc_user_id bob \<noteq> ''u1''
   \<and> update_user_info (healthy_mongo [alice, bob])
        \<lparr>username = ''bob'', user_role = ''admin'', user_id = ''u2''\<rparr> ''u1''
       = (Inr (),
          healthy_mongo
            [\<lparr>doc_user_id = ''u2'', doc_username = ''bob'', doc_user_role = ''admin'',
              doc_more = [(''email'', ''alice@example.org'')]\<rparr>, bob])"
  by (simp add: update_user_info_def find_one_def update_one_def doc_matches_def doc_field_def
      project_doc_def set_field_def UserUpdateModel_dump_def healthy_mongo_def alice_def bob_def)

end
